theory Spec2Isabelle
  imports Main "HOL-Library.Word" "HOL-Library.AList"
begin

section \<open>JavaScript values\<close>

text \<open>
  A JavaScript string is a sequence of UTF-16 code units: \<open>length\<close> and \<open>substring\<close>
  count code units, so the model is a list of 16-bit words. The literals of the source
  that are not ASCII (the Korean messages) are written out as their code units.
\<close>

type_synonym jsstring = "16 word list"

definition js :: "string \<Rightarrow> jsstring" where
  \<comment> \<open>an ASCII literal of the source\<close>
  "js s = map of_char s"

fun decimal :: "nat \<Rightarrow> jsstring" where
  \<comment> \<open>a non-negative integer in a template literal, such as \<open>${response.status}\<close>\<close>
  "decimal n =
     (if n < 10 then [of_nat (48 + n)] else decimal (n div 10) @ [of_nat (48 + n mod 10)])"

declare decimal.simps [simp del]

definition is_ws :: "16 word \<Rightarrow> bool" where
  \<comment> \<open>WhiteSpace and LineTerminator of ECMAScript, the code points \<open>trim\<close> strips\<close>
  "is_ws c =
     (c \<in> set [0x9, 0xA, 0xB, 0xC, 0xD, 0x20, 0xA0, 0x1680, 0x2028, 0x2029, 0x202F, 0x205F,
               0x3000, 0xFEFF]
      \<or> (0x2000 \<le> c \<and> c \<le> 0x200A))"

definition trim :: "jsstring \<Rightarrow> jsstring" where
  "trim s = rev (dropWhile is_ws (rev (dropWhile is_ws s)))"

fun str_includes :: "jsstring \<Rightarrow> jsstring \<Rightarrow> bool" where
  \<comment> \<open>\<open>s.includes(sub)\<close>\<close>
  "str_includes [] sub = (sub = [])"
| "str_includes (c # s) sub = (take (length sub) (c # s) = sub \<or> str_includes s sub)"

text \<open>
  The data a JSON text denotes. A number is carried by its canonical rendering (what
  \<open>String(n)\<close> gives, \<open>0\<close> for both zeros), which determines the number; of a
  number the program only asks whether it is truthy and what its string is.
\<close>

datatype json =
    JNull
  | JBool bool
  | JNum jsstring
  | JStr jsstring
  | JArr "json list"
  | JObj "(jsstring \<times> json) list"

text \<open>
  A \<open>Date\<close> object is invalid or carries a time, modelled by its \<open>toISOString()\<close>.
\<close>

datatype jsdate = InvalidDate | ValidDate jsstring

text \<open>
  The values an argument can take where the source inspects the dynamic type:
  \<open>undefined\<close>, a \<open>Date\<close>, or plain data.
\<close>

datatype jsval = Undefined | Date jsdate | Json json

datatype exn =
    Error jsstring
  | TypeError jsstring
  | RangeError jsstring
  | SyntaxError jsstring
  | NonError  \<comment> \<open>a thrown value that is not an instance of \<open>Error\<close>\<close>

text \<open>
  What the host supplies: the build-time environment variable, and the message texts of
  the errors the engine itself raises (they differ between engines).
\<close>

record host =
  VITE_API_BASE_URL :: "jsstring option"
  invalid_time_text :: jsstring  \<comment> \<open>RangeError of \<open>toISOString\<close> on an invalid Date\<close>
  not_primitive_text :: jsstring  \<comment> \<open>TypeError of converting an object to a string\<close>

fun truthy :: "json \<Rightarrow> bool" where
  "truthy JNull = False"
| "truthy (JBool b) = b"
| "truthy (JNum n) = (n \<noteq> js ''0'' \<and> n \<noteq> js ''NaN'')"
| "truthy (JStr s) = (s \<noteq> [])"
| "truthy (JArr xs) = True"
| "truthy (JObj ps) = True"

fun truthy_val :: "jsval \<Rightarrow> bool" where
  "truthy_val Undefined = False"
| "truthy_val (Date d) = True"
| "truthy_val (Json v) = truthy v"

fun own_property :: "json \<Rightarrow> jsstring \<Rightarrow> json option" where
  \<comment> \<open>\<open>v?.k\<close> for a key \<open>k\<close> that no built-in prototype defines (\<open>message\<close>,
      \<open>error\<close>); \<open>None\<close> is \<open>undefined\<close>\<close>
  "own_property (JObj ps) k = map_of ps k"
| "own_property v k = None"

definition or_else :: "json option \<Rightarrow> json \<Rightarrow> json" where
  \<comment> \<open>\<open>a || b\<close>, where \<open>a\<close> may be \<open>undefined\<close>\<close>
  "or_else a b = (case a of Some v \<Rightarrow> if truthy v then v else b | None \<Rightarrow> b)"

fun join :: "jsstring list \<Rightarrow> jsstring" where
  "join [] = []"
| "join [s] = s"
| "join (s # t # ss) = s @ js '','' @ join (t # ss)"

fun first_error :: "(exn + 'a) list \<Rightarrow> exn + 'a list" where
  \<comment> \<open>left to right, the first exception wins\<close>
  "first_error [] = Inr []"
| "first_error (Inl e # rs) = Inl e"
| "first_error (Inr x # rs) = map_sum id ((#) x) (first_error rs)"

fun ToString :: "host \<Rightarrow> json \<Rightarrow> exn + jsstring" where
  \<comment> \<open>ECMAScript ToString on parsed JSON data: an array joins its elements, an object
      is \<open>[object Object]\<close> unless an own property shadows \<open>toString\<close> (it is data,
      not callable, and the conversion throws)\<close>
  "ToString h JNull = Inr (js ''null'')"
| "ToString h (JBool b) = Inr (if b then js ''true'' else js ''false'')"
| "ToString h (JNum n) = Inr n"
| "ToString h (JStr s) = Inr s"
| "ToString h (JArr xs) =
     map_sum id join
       (first_error (map (\<lambda>x. if x = JNull then Inr [] else ToString h x) xs))"
| "ToString h (JObj ps) =
     (if js ''toString'' \<in> fst ` set ps then Inl (TypeError (not_primitive_text h))
      else Inr (js ''[object Object]''))"

definition toISOString :: "host \<Rightarrow> jsdate \<Rightarrow> exn + jsstring" where
  "toISOString h d =
     (case d of InvalidDate \<Rightarrow> Inl (RangeError (invalid_time_text h)) | ValidDate stamp \<Rightarrow> Inr stamp)"

subsection \<open>The message literals of the source\<close>

definition msg_server_error :: jsstring where
  \<comment> \<open>todoApi.js line 11, the text before the status: 'Server error ('\<close>
  "msg_server_error =
    [0xC11C, 0xBC84, 0x20, 0xC624, 0xB958, 0x20, 0x28]"

definition msg_500 :: jsstring where
  \<comment> \<open>line 36: 'An internal server error occurred. Please try again shortly.'\<close>
  "msg_500 =
    [0xC11C, 0xBC84, 0x20, 0xB0B4, 0xBD80, 0x20, 0xC624, 0xB958, 0xAC00, 0x20, 0xBC1C,
     0xC0DD, 0xD588, 0xC2B5, 0xB2C8, 0xB2E4, 0x2E, 0x20, 0xC7A0, 0xC2DC, 0x20, 0xD6C4, 0x20,
     0xB2E4, 0xC2DC, 0x20, 0xC2DC, 0xB3C4, 0xD574, 0xC8FC, 0xC138, 0xC694, 0x2E]"

definition msg_404 :: jsstring where
  \<comment> \<open>line 38: 'The requested resource could not be found.'\<close>
  "msg_404 =
    [0xC694, 0xCCAD, 0xD55C, 0x20, 0xB9AC, 0xC18C, 0xC2A4, 0xB97C, 0x20, 0xCC3E, 0xC744,
     0x20, 0xC218, 0x20, 0xC5C6, 0xC2B5, 0xB2C8, 0xB2E4, 0x2E]"

definition msg_400 :: jsstring where
  \<comment> \<open>line 40: 'Bad request. Please check the input.'\<close>
  "msg_400 =
    [0xC798, 0xBABB, 0xB41C, 0x20, 0xC694, 0xCCAD, 0xC785, 0xB2C8, 0xB2E4, 0x2E, 0x20,
     0xC785, 0xB825, 0xAC12, 0xC744, 0x20, 0xD655, 0xC778, 0xD574, 0xC8FC, 0xC138, 0xC694,
     0x2E]"

definition msg_401 :: jsstring where
  \<comment> \<open>line 42: 'Authentication is required.'\<close>
  "msg_401 =
    [0xC778, 0xC99D, 0xC774, 0x20, 0xD544, 0xC694, 0xD569, 0xB2C8, 0xB2E4, 0x2E]"

definition msg_403 :: jsstring where
  \<comment> \<open>line 44: 'You do not have access.'\<close>
  "msg_403 =
    [0xC811, 0xADFC, 0x20, 0xAD8C, 0xD55C, 0xC774, 0x20, 0xC5C6, 0xC2B5, 0xB2C8, 0xB2E4,
     0x2E]"

definition msg_guidance :: jsstring where
  \<comment> \<open>lines 50-54, the five pieces appended for status 500: 'This may be a server-side problem. Possible causes: 1. database connection 2. server environment variables 3. server code error. Check the Heroku logs or try again shortly.'\<close>
  "msg_guidance =
    [0xA, 0xA, 0xC11C, 0xBC84, 0x20, 0xCE21, 0x20, 0xBB38, 0xC81C, 0xC77C, 0x20, 0xC218,
     0x20, 0xC788, 0xC2B5, 0xB2C8, 0xB2E4, 0x2E, 0x20, 0xAC00, 0xB2A5, 0xD55C, 0x20, 0xC6D0,
     0xC778, 0x3A, 0xA, 0x31, 0x2E, 0x20, 0xB370, 0xC774, 0xD130, 0xBCA0, 0xC774, 0xC2A4,
     0x20, 0xC5F0, 0xACB0, 0x20, 0xBB38, 0xC81C, 0xA, 0x32, 0x2E, 0x20, 0xC11C, 0xBC84,
     0x20, 0xD658, 0xACBD, 0xBCC0, 0xC218, 0x20, 0xC124, 0xC815, 0x20, 0xBB38, 0xC81C, 0xA,
     0x33, 0x2E, 0x20, 0xC11C, 0xBC84, 0x20, 0xCF54, 0xB4DC, 0x20, 0xC624, 0xB958, 0xA, 0xA,
     0x48, 0x65, 0x72, 0x6F, 0x6B, 0x75, 0x20, 0xB85C, 0xADF8, 0xB97C, 0x20, 0xD655, 0xC778,
     0xD558, 0xAC70, 0xB098, 0x20, 0xC7A0, 0xC2DC, 0x20, 0xD6C4, 0x20, 0xB2E4, 0xC2DC, 0x20,
     0xC2DC, 0xB3C4, 0xD574, 0xC8FC, 0xC138, 0xC694, 0x2E]"

definition msg_connect_pre :: jsstring where
  \<comment> \<open>line 109, before the URL: 'The backend server('\<close>
  "msg_connect_pre =
    [0xBC31, 0xC5D4, 0xB4DC, 0x20, 0xC11C, 0xBC84, 0x28]"

definition msg_connect_post :: jsstring where
  \<comment> \<open>line 109, after the URL: ') cannot be reached. Check: 1. the internet connection 2. that the Heroku server is running 3. the network tab of the developer tools'\<close>
  "msg_connect_post =
    [0x29, 0xC5D0, 0x20, 0xC5F0, 0xACB0, 0xD560, 0x20, 0xC218, 0x20, 0xC5C6, 0xC2B5, 0xB2C8,
     0xB2E4, 0x2E, 0xA, 0xA, 0xD655, 0xC778, 0xC0AC, 0xD56D, 0x3A, 0xA, 0x31, 0x2E, 0x20,
     0xC778, 0xD130, 0xB137, 0x20, 0xC5F0, 0xACB0, 0x20, 0xC0C1, 0xD0DC, 0xB97C, 0x20,
     0xD655, 0xC778, 0xD574, 0xC8FC, 0xC138, 0xC694, 0xA, 0x32, 0x2E, 0x20, 0x48, 0x65,
     0x72, 0x6F, 0x6B, 0x75, 0x20, 0xC11C, 0xBC84, 0xAC00, 0x20, 0xC815, 0xC0C1, 0x20,
     0xC791, 0xB3D9, 0x20, 0xC911, 0xC778, 0xC9C0, 0x20, 0xD655, 0xC778, 0xD574, 0xC8FC,
     0xC138, 0xC694, 0xA, 0x33, 0x2E, 0x20, 0xBE0C, 0xB77C, 0xC6B0, 0xC800, 0x20, 0xAC1C,
     0xBC1C, 0xC790, 0x20, 0xB3C4, 0xAD6C, 0xC758, 0x20, 0xB124, 0xD2B8, 0xC6CC, 0xD06C,
     0x20, 0xD0ED, 0xC5D0, 0xC11C, 0x20, 0xC5D0, 0xB7EC, 0xB97C, 0x20, 0xD655, 0xC778,
     0xD574, 0xC8FC, 0xC138, 0xC694]"

definition msg_unknown :: jsstring where
  \<comment> \<open>line 120: 'An unknown error occurred.'\<close>
  "msg_unknown =
    [0xC54C, 0x20, 0xC218, 0x20, 0xC5C6, 0xB294, 0x20, 0xC624, 0xB958, 0xAC00, 0x20, 0xBC1C,
     0xC0DD, 0xD588, 0xC2B5, 0xB2C8, 0xB2E4, 0x2E]"

definition msg_no_backend :: jsstring where
  \<comment> \<open>lines 170, 237, 269: 'Cannot connect to the backend server. Please check that the server is running.'\<close>
  "msg_no_backend =
    [0xBC31, 0xC5D4, 0xB4DC, 0x20, 0xC11C, 0xBC84, 0xC5D0, 0x20, 0xC5F0, 0xACB0, 0xD560,
     0x20, 0xC218, 0x20, 0xC5C6, 0xC2B5, 0xB2C8, 0xB2E4, 0x2E, 0x20, 0xC11C, 0xBC84, 0xAC00,
     0x20, 0xC2E4, 0xD589, 0x20, 0xC911, 0xC778, 0xC9C0, 0x20, 0xD655, 0xC778, 0xD574,
     0xC8FC, 0xC138, 0xC694, 0x2E]"

definition msg_invalid_id :: jsstring where
  \<comment> \<open>lines 191, 253: 'Invalid todo ID'\<close>
  "msg_invalid_id =
    [0xC720, 0xD6A8, 0xD558, 0xC9C0, 0x20, 0xC54A, 0xC740, 0x20, 0xD560, 0xC77C, 0x20, 0x49,
     0x44, 0xC785, 0xB2C8, 0xB2E4]"

definition msg_load_failed :: jsstring where
  \<comment> \<open>App.jsx line 47: 'Failed to load the todo list.'\<close>
  "msg_load_failed =
    [0xD560, 0xC77C, 0x20, 0xBAA9, 0xB85D, 0xC744, 0x20, 0xBD88, 0xB7EC, 0xC624, 0xB294,
     0xB370, 0x20, 0xC2E4, 0xD328, 0xD588, 0xC2B5, 0xB2C8, 0xB2E4, 0x2E]"

definition msg_title_required :: jsstring where
  \<comment> \<open>App.jsx lines 61, 120: 'Please enter a todo title.'\<close>
  "msg_title_required =
    [0xD560, 0xC77C, 0x20, 0xC81C, 0xBAA9, 0xC744, 0x20, 0xC785, 0xB825, 0xD574, 0xC8FC,
     0xC138, 0xC694, 0x2E]"

definition msg_add_failed :: jsstring where
  \<comment> \<open>App.jsx line 79: 'Failed to add the todo.'\<close>
  "msg_add_failed =
    [0xD560, 0xC77C, 0x20, 0xCD94, 0xAC00, 0xC5D0, 0x20, 0xC2E4, 0xD328, 0xD588, 0xC2B5,
     0xB2C8, 0xB2E4, 0x2E]"

definition msg_edit_failed :: jsstring where
  \<comment> \<open>App.jsx line 150: 'Failed to edit the todo.'\<close>
  "msg_edit_failed =
    [0xD560, 0xC77C, 0x20, 0xC218, 0xC815, 0xC5D0, 0x20, 0xC2E4, 0xD328, 0xD588, 0xC2B5,
     0xB2C8, 0xB2E4, 0x2E]"

definition msg_toggle_failed :: jsstring where
  \<comment> \<open>App.jsx line 172: 'Failed to change the status.'\<close>
  "msg_toggle_failed =
    [0xC0C1, 0xD0DC, 0x20, 0xBCC0, 0xACBD, 0xC5D0, 0x20, 0xC2E4, 0xD328, 0xD588, 0xC2B5,
     0xB2C8, 0xB2E4, 0x2E]"

definition msg_delete_failed :: jsstring where
  \<comment> \<open>App.jsx line 196: 'Failed to delete the todo.'\<close>
  "msg_delete_failed =
    [0xD560, 0xC77C, 0x20, 0xC0AD, 0xC81C, 0xC5D0, 0x20, 0xC2E4, 0xD328, 0xD588, 0xC2B5,
     0xB2C8, 0xB2E4, 0x2E]"

definition msg_confirm_delete :: jsstring where
  \<comment> \<open>App.jsx line 183: 'Do you really want to delete this todo?'\<close>
  "msg_confirm_delete =
    [0xC815, 0xB9D0, 0xB85C, 0x20, 0xC774, 0x20, 0xD560, 0xC77C, 0xC744, 0x20, 0xC0AD,
     0xC81C, 0xD558, 0xC2DC, 0xACA0, 0xC2B5, 0xB2C8, 0xAE4C, 0x3F]"

section \<open>The API client (src/api/todoApi.js)\<close>

definition API_BASE_URL :: "host \<Rightarrow> jsstring" where
  "API_BASE_URL h =
     (case VITE_API_BASE_URL h of
        Some origin \<Rightarrow> if origin \<noteq> [] then origin else js ''http://localhost:5000''
      | None \<Rightarrow> js ''http://localhost:5000'')
     @ js ''/todos''"

text \<open>
  A call of \<open>fetch\<close>. The body is the JSON document that the text
  \<open>JSON.stringify(requestData)\<close> denotes.
\<close>

record request =
  url :: jsstring
  http_method :: string
  headers :: "(string \<times> string) list"
  body :: "json option"

text \<open>
  What reading a response body as text gives: the read is rejected, or it yields a text,
  on which \<open>JSON.parse\<close> throws (\<open>None\<close>) or returns data.
\<close>

datatype body_text = Unreadable | Text jsstring "json option"

text \<open>
  A response: its status, the outcome of \<open>response.clone().text()\<close> followed by
  \<open>JSON.parse\<close>, and the outcome of \<open>response.json()\<close> read at the type the JSDoc
  of the caller declares (\<open>TodoItem[]\<close> or \<open>TodoItem\<close>).
\<close>

record 'a response =
  status :: nat
  read_text :: body_text
  read_json :: "exn + 'a"

definition ok :: "'a response \<Rightarrow> bool" where
  "ok response = (200 \<le> status response \<and> status response \<le> 299)"

definition handleResponseError :: "host \<Rightarrow> 'a response \<Rightarrow> exn" where
  \<comment> \<open>always throws: the result is the exception\<close>
  "handleResponseError h response =
     (let errorMessage = JStr (msg_server_error @ decimal (status response) @ js '')'');
          errorMessage =
            (case read_text response of
               Text responseText parsed \<Rightarrow>
                 (case parsed of
                    Some errorData \<Rightarrow>
                      or_else (own_property errorData (js ''message''))
                        (or_else (own_property errorData (js ''error'')) errorMessage)
                  | None \<Rightarrow>
                      if responseText \<noteq> [] then JStr (take 200 responseText) else errorMessage)
             | Unreadable \<Rightarrow>
                 if status response = 500 then JStr msg_500
                 else if status response = 404 then JStr msg_404
                 else if status response = 400 then JStr msg_400
                 else if status response = 401 then JStr msg_401
                 else if status response = 403 then JStr msg_403
                 else errorMessage)
      in case ToString h errorMessage of
           Inl error \<Rightarrow> error
         | Inr message \<Rightarrow>
             if status response = 500 then Error (message @ msg_guidance) else Error message)"

definition base_message :: "host \<Rightarrow> 'a response \<Rightarrow> exn + jsstring" where
  \<comment> \<open>the message of lines 11 to 46, before the step for status 500, case by case; used
      to state properties\<close>
  "base_message h response =
     (let default = msg_server_error @ decimal (status response) @ js '')'' in
      case read_text response of
        Unreadable \<Rightarrow>
          Inr (if status response = 500 then msg_500
               else if status response = 404 then msg_404
               else if status response = 400 then msg_400
               else if status response = 401 then msg_401
               else if status response = 403 then msg_403
               else default)
      | Text responseText None \<Rightarrow> Inr (if responseText = [] then default else take 200 responseText)
      | Text responseText (Some errorData) \<Rightarrow>
          (case filter truthy
                  (List.map_filter (own_property errorData) [js ''message'', js ''error'']) of
             [] \<Rightarrow> Inr default
           | v # _ \<Rightarrow> ToString h v))"

text \<open>
  \<open>JSON.stringify\<close> of the object \<open>requestData\<close>, a list of properties in insertion
  order: a property whose value is \<open>undefined\<close> is left out, a \<open>Date\<close> is replaced
  by its \<open>toJSON()\<close>, a number that is not finite becomes \<open>null\<close>.
\<close>

fun finite_numbers :: "json \<Rightarrow> json" where
  "finite_numbers (JNum n) =
     (if n = js ''NaN'' \<or> n = js ''Infinity'' \<or> n = js ''-Infinity'' then JNull else JNum n)"
| "finite_numbers (JArr xs) = JArr (map finite_numbers xs)"
| "finite_numbers (JObj ps) = JObj (map (\<lambda>(k, v). (k, finite_numbers v)) ps)"
| "finite_numbers v = v"

fun serialize :: "jsval \<Rightarrow> json option" where
  "serialize Undefined = None"
| "serialize (Date InvalidDate) = Some JNull"
| "serialize (Date (ValidDate stamp)) = Some (JStr stamp)"
| "serialize (Json v) = Some (finite_numbers v)"

definition JSON_stringify :: "(jsstring \<times> jsval) list \<Rightarrow> json" where
  "JSON_stringify requestData =
     JObj (List.map_filter (\<lambda>(k, v). map_option (Pair k) (serialize v)) requestData)"

definition field_names :: "json option \<Rightarrow> jsstring list" where
  \<comment> \<open>the fields of a request body, in order; used to state properties\<close>
  "field_names b = (case b of Some (JObj ps) \<Rightarrow> map fst ps | _ \<Rightarrow> [])"

definition field :: "json option \<Rightarrow> jsstring \<Rightarrow> json option" where
  \<comment> \<open>the value of a field of a request body; used to state properties\<close>
  "field b k = (case b of Some (JObj ps) \<Rightarrow> map_of ps k | _ \<Rightarrow> None)"

definition fetchTodos_catch :: "host \<Rightarrow> exn \<Rightarrow> exn" where
  \<comment> \<open>the catch block of fetchTodos, lines 99 to 121: the exception it throws\<close>
  "fetchTodos_catch h error =
     (case error of
        TypeError message \<Rightarrow>
          if str_includes message (js ''fetch'') \<or> str_includes message (js ''Failed to fetch'')
             \<or> str_includes message (js ''network'') \<or> str_includes message (js ''NetworkError'')
          then Error (msg_connect_pre @ API_BASE_URL h @ msg_connect_post)
          else error
      | NonError \<Rightarrow> Error msg_unknown
      | _ \<Rightarrow> error)"

definition catch_network :: "exn \<Rightarrow> exn" where
  \<comment> \<open>the catch block of createTodo, updateTodo and deleteTodo\<close>
  "catch_network error =
     (case error of
        TypeError message \<Rightarrow>
          if str_includes message (js ''fetch'') then Error msg_no_backend else error
      | _ \<Rightarrow> error)"

text \<open>
  An operation returns the calls of \<open>fetch\<close> it made, in order, and either the
  exception it throws or its result. \<open>fetch\<close> itself is the network: it rejects, or it
  resolves to a response.
\<close>

definition fetchTodos ::
  "host \<Rightarrow> (request \<Rightarrow> exn + 'a response) \<Rightarrow> bool option \<Rightarrow> request list \<times> (exn + 'a)" where
  "fetchTodos h fetch isCompleted' =
     (let url' = API_BASE_URL h @
            (case isCompleted' of
               None \<Rightarrow> []
             | Some b \<Rightarrow> js ''?isCompleted='' @ (if b then js ''true'' else js ''false''));
          request = \<lparr>url = url', http_method = ''GET'', headers = [], body = None\<rparr>;
          outcome =
            (case fetch request of
               Inl error \<Rightarrow> Inl error
             | Inr response \<Rightarrow>
                 if \<not> ok response then Inl (handleResponseError h response)
                 else read_json response)
      in ([request], map_sum (fetchTodos_catch h) id outcome))"

definition createTodo ::
  "host \<Rightarrow> (request \<Rightarrow> exn + 'a response) \<Rightarrow> jsstring \<Rightarrow> jsstring option \<Rightarrow> jsval \<Rightarrow> jsval
     \<Rightarrow> request list \<times> (exn + 'a)" where
  \<comment> \<open>an omitted argument is \<open>None\<close> or \<open>Undefined\<close> and takes its default\<close>
  "createTodo h fetch title' description' dueDate' isCompleted' =
     (let description = (case description' of None \<Rightarrow> [] | Some d \<Rightarrow> d);
          dueDate = (if dueDate' = Undefined then Json JNull else dueDate');
          isCompleted = (if isCompleted' = Undefined then Json (JBool False) else isCompleted');
          requestData = [(js ''title'', Json (JStr (trim title')))];
          requestData =
            (if description \<noteq> [] \<and> trim description \<noteq> []
             then AList.update (js ''description'') (Json (JStr (trim description))) requestData
             else requestData);
          built =
            (if truthy_val dueDate
             then (case dueDate of
                     Date d \<Rightarrow>
                       map_sum id
                         (\<lambda>stamp. AList.update (js ''dueDate'') (Json (JStr stamp)) requestData)
                         (toISOString h d)
                   | _ \<Rightarrow> Inr (AList.update (js ''dueDate'') dueDate requestData))
             else Inr requestData)
      in case built of
           Inl error \<Rightarrow> ([], Inl (catch_network error))
         | Inr requestData \<Rightarrow>
             let requestData =
                   (case isCompleted of
                      Json (JBool b) \<Rightarrow> AList.update (js ''isCompleted'') isCompleted requestData
                    | _ \<Rightarrow> requestData);
                 request =
                   \<lparr>url = API_BASE_URL h, http_method = ''POST'',
                    headers = [(''Content-Type'', ''application/json'')],
                    body = Some (JSON_stringify requestData)\<rparr>;
                 outcome =
                   (case fetch request of
                      Inl error \<Rightarrow> Inl error
                    | Inr response \<Rightarrow>
                        if \<not> ok response then Inl (handleResponseError h response)
                        else read_json response)
             in ([request], map_sum catch_network id outcome))"

text \<open>
  The argument \<open>updateData\<close> of updateTodo, as its JSDoc declares it: four optional
  properties. Reading a property that was not passed gives \<open>undefined\<close>.
\<close>

record updateData =
  title :: jsval
  description :: jsval
  dueDate :: jsval
  isCompleted :: jsval

fun trim_if_string :: "jsval \<Rightarrow> jsval" where
  \<comment> \<open>\<open>typeof v === 'string' ? v.trim() : v\<close>\<close>
  "trim_if_string (Json (JStr s)) = Json (JStr (trim s))"
| "trim_if_string v = v"

definition updateTodo ::
  "host \<Rightarrow> (request \<Rightarrow> exn + 'a response) \<Rightarrow> jsstring \<Rightarrow> updateData
     \<Rightarrow> request list \<times> (exn + 'a)" where
  "updateTodo h fetch id' updateData =
     (let built =
            (if id' = [] \<or> id' = js ''undefined'' \<or> id' = js ''null''
             then Inl (Error msg_invalid_id)
             else
               let requestData = [];
                   requestData =
                     (if title updateData \<noteq> Undefined
                      then AList.update (js ''title'') (trim_if_string (title updateData)) requestData
                      else requestData);
                   requestData =
                     (if description updateData \<noteq> Undefined
                      then AList.update (js ''description'') (trim_if_string (description updateData))
                             requestData
                      else requestData);
                   built_dueDate =
                     (if dueDate updateData \<noteq> Undefined
                      then (case dueDate updateData of
                              Date d \<Rightarrow>
                                map_sum id
                                  (\<lambda>stamp. AList.update (js ''dueDate'') (Json (JStr stamp)) requestData)
                                  (toISOString h d)
                            | v \<Rightarrow> Inr (AList.update (js ''dueDate'') v requestData))
                      else Inr requestData)
               in map_sum id
                    (\<lambda>requestData.
                       if isCompleted updateData \<noteq> Undefined
                       then AList.update (js ''isCompleted'')
                              (Json (JBool (truthy_val (isCompleted updateData)))) requestData
                       else requestData)
                    built_dueDate)
      in case built of
           Inl error \<Rightarrow> ([], Inl (catch_network error))
         | Inr requestData \<Rightarrow>
             let request =
                   \<lparr>url = API_BASE_URL h @ js ''/'' @ id', http_method = ''PATCH'',
                    headers = [(''Content-Type'', ''application/json'')],
                    body = Some (JSON_stringify requestData)\<rparr>;
                 outcome =
                   (case fetch request of
                      Inl error \<Rightarrow> Inl error
                    | Inr response \<Rightarrow>
                        if \<not> ok response then Inl (handleResponseError h response)
                        else read_json response)
             in ([request], map_sum catch_network id outcome))"

definition deleteTodo ::
  "host \<Rightarrow> (request \<Rightarrow> exn + 'a response) \<Rightarrow> jsstring \<Rightarrow> request list \<times> (exn + unit)" where
  "deleteTodo h fetch id' =
     (if id' = [] \<or> id' = js ''undefined'' \<or> id' = js ''null''
      then ([], Inl (catch_network (Error msg_invalid_id)))
      else
        let request =
              \<lparr>url = API_BASE_URL h @ js ''/'' @ id', http_method = ''DELETE'', headers = [],
               body = None\<rparr>;
            outcome =
              (case fetch request of
                 Inl error \<Rightarrow> Inl error
               | Inr response \<Rightarrow>
                   if \<not> ok response \<and> status response \<noteq> 204
                   then Inl (handleResponseError h response)
                   else Inr ())
        in ([request], map_sum catch_network id outcome))"

section \<open>The view (src/App.jsx)\<close>

text \<open>The typedef \<open>TodoItem\<close> of the JSDoc; \<open>todo_id\<close> is the property \<open>_id\<close>.\<close>

record TodoItem =
  todo_id :: jsstring
  todo_title :: jsstring
  todo_description :: "jsstring option"
  todo_dueDate :: "jsstring option"
  todo_isCompleted :: bool
  todo_createdAt :: "jsstring option"
  todo_updatedAt :: "jsstring option"

text \<open>The draft of the row being edited (the state \<open>editingData\<close>).\<close>

record editingData =
  editing_title :: jsstring
  editing_description :: jsstring
  editing_dueDate :: jsstring
  editing_isCompleted :: bool

text \<open>
  The state of the component, one field for each \<open>useState\<close>. A handler reads the
  state of the render it was created in and calls setters; the model returns the state
  after its setters, and the calls of \<open>fetch\<close> it made. One handler runs at a time:
  overlapping actions are outside the model, and so are rendering, logging to the
  console, and the handlers that call no client function (handleStartEdit,
  handleCancelEdit, formatDate).
\<close>

record app_state =
  todos :: "TodoItem list"
  titleInput :: jsstring
  descriptionInput :: jsstring
  dueDateInput :: jsstring
  editingTodoId :: "jsstring option"
  editingData :: editingData
  isLoading :: bool
  errorMessage :: jsstring
  filter' :: jsstring

definition message_or :: "jsstring \<Rightarrow> exn \<Rightarrow> jsstring" where
  \<comment> \<open>\<open>error instanceof Error ? error.message : fallback\<close>\<close>
  "message_or fallback error =
     (case error of
        Error m \<Rightarrow> m
      | TypeError m \<Rightarrow> m
      | RangeError m \<Rightarrow> m
      | SyntaxError m \<Rightarrow> m
      | NonError \<Rightarrow> fallback)"

definition loadTodos ::
  "host \<Rightarrow> (request \<Rightarrow> exn + TodoItem list response) \<Rightarrow> app_state
     \<Rightarrow> app_state \<times> request list" where
  "loadTodos h fetch s =
     (let s = s\<lparr>isLoading := True, errorMessage := []\<rparr>;
          (calls, outcome) =
            (if filter' s = js ''completed'' then fetchTodos h fetch (Some True)
             else if filter' s = js ''pending'' then fetchTodos h fetch (Some False)
             else fetchTodos h fetch None);
          s = (case outcome of
                 Inr todosData \<Rightarrow> s\<lparr>todos := todosData\<rparr>
               | Inl error \<Rightarrow> s\<lparr>errorMessage := message_or msg_load_failed error\<rparr>)
      in (s\<lparr>isLoading := False\<rparr>, calls))"

definition handleAddTodo ::
  "host \<Rightarrow> (jsstring \<Rightarrow> jsdate) \<Rightarrow> (request \<Rightarrow> exn + TodoItem response) \<Rightarrow> app_state
     \<Rightarrow> app_state \<times> request list" where
  \<comment> \<open>\<open>Date_new\<close> is the host's \<open>new Date(string)\<close>\<close>
  "handleAddTodo h Date_new fetch s0 =
     (if trim (titleInput s0) = [] then (s0\<lparr>errorMessage := msg_title_required\<rparr>, [])
      else
        let s = s0\<lparr>isLoading := True, errorMessage := []\<rparr>;
            dueDate =
              (if dueDateInput s0 \<noteq> [] then Date (Date_new (dueDateInput s0)) else Json JNull);
            (calls, outcome) =
              createTodo h fetch (titleInput s0) (Some (descriptionInput s0)) dueDate
                (Json (JBool False));
            s = (case outcome of
                   Inr newTodo \<Rightarrow>
                     s\<lparr>todos := newTodo # todos s0, titleInput := [], descriptionInput := [],
                       dueDateInput := []\<rparr>
                 | Inl error \<Rightarrow> s\<lparr>errorMessage := message_or msg_add_failed error\<rparr>)
        in (s\<lparr>isLoading := False\<rparr>, calls))"

definition handleSaveEdit ::
  "host \<Rightarrow> (jsstring \<Rightarrow> jsdate) \<Rightarrow> (request \<Rightarrow> exn + TodoItem response) \<Rightarrow> jsstring
     \<Rightarrow> app_state \<Rightarrow> app_state \<times> request list" where
  "handleSaveEdit h Date_new fetch todoId s0 =
     (if trim (editing_title (editingData s0)) = []
      then (s0\<lparr>errorMessage := msg_title_required\<rparr>, [])
      else
        let s = s0\<lparr>isLoading := True, errorMessage := []\<rparr>;
            updateData =
              \<lparr>title = Json (JStr (editing_title (editingData s0))),
               description = Json (JStr (editing_description (editingData s0))),
               dueDate = Undefined,
               isCompleted = Json (JBool (editing_isCompleted (editingData s0)))\<rparr>;
            built =
              (if editing_dueDate (editingData s0) \<noteq> []
               then map_sum id (\<lambda>stamp. updateData\<lparr>dueDate := Json (JStr stamp)\<rparr>)
                      (toISOString h (Date_new (editing_dueDate (editingData s0))))
               else Inr updateData);
            (calls, outcome) =
              (case built of
                 Inl error \<Rightarrow> ([], Inl error)
               | Inr updateData \<Rightarrow> updateTodo h fetch todoId updateData);
            s = (case outcome of
                   Inr updatedTodo \<Rightarrow>
                     s\<lparr>todos := map (\<lambda>todo. if todo_id todo = todoId then updatedTodo else todo)
                                 (todos s0),
                       editingTodoId := None,
                       editingData :=
                         \<lparr>editing_title = [], editing_description = [], editing_dueDate = [],
                          editing_isCompleted = False\<rparr>\<rparr>
                 | Inl error \<Rightarrow> s\<lparr>errorMessage := message_or msg_edit_failed error\<rparr>)
        in (s\<lparr>isLoading := False\<rparr>, calls))"

definition handleToggleComplete ::
  "host \<Rightarrow> (request \<Rightarrow> exn + TodoItem response) \<Rightarrow> TodoItem \<Rightarrow> app_state
     \<Rightarrow> app_state \<times> request list" where
  "handleToggleComplete h fetch todo s0 =
     (let s = s0\<lparr>isLoading := True, errorMessage := []\<rparr>;
          (calls, outcome) =
            updateTodo h fetch (todo_id todo)
              \<lparr>title = Undefined, description = Undefined, dueDate = Undefined,
               isCompleted = Json (JBool (\<not> todo_isCompleted todo))\<rparr>;
          s = (case outcome of
                 Inr updatedTodo \<Rightarrow>
                   s\<lparr>todos := map (\<lambda>t. if todo_id t = todo_id todo then updatedTodo else t)
                               (todos s0)\<rparr>
               | Inl error \<Rightarrow> s\<lparr>errorMessage := message_or msg_toggle_failed error\<rparr>)
      in (s\<lparr>isLoading := False\<rparr>, calls))"

definition handleDeleteTodo ::
  "host \<Rightarrow> bool \<Rightarrow> (request \<Rightarrow> exn + 'a response) \<Rightarrow> jsstring \<Rightarrow> app_state
     \<Rightarrow> app_state \<times> request list" where
  \<comment> \<open>\<open>confirmed\<close> is the user's answer to the \<open>confirm\<close> dialogue\<close>
  "handleDeleteTodo h confirmed fetch todoId s0 =
     (if \<not> confirmed then (s0, [])
      else
        let s = s0\<lparr>isLoading := True, errorMessage := []\<rparr>;
            (calls, outcome) = deleteTodo h fetch todoId;
            s = (case outcome of
                   Inr _ \<Rightarrow> s\<lparr>todos := filter (\<lambda>todo. todo_id todo \<noteq> todoId) (todos s0)\<rparr>
                 | Inl error \<Rightarrow> s\<lparr>errorMessage := message_or msg_delete_failed error\<rparr>)
        in (s\<lparr>isLoading := False\<rparr>, calls))"

section \<open>Concrete hosts, networks and states\<close>

text \<open>A host with no origin configured and the error texts of V8.\<close>

definition chrome :: host where
  "chrome =
     \<lparr>VITE_API_BASE_URL = None, invalid_time_text = js ''Invalid time value'',
      not_primitive_text = js ''Cannot convert object to primitive value''\<rparr>"

text \<open>A network on which every \<open>fetch\<close> is rejected, with the text Chrome gives.\<close>

definition offline :: "request \<Rightarrow> exn + 'a response" where
  "offline request = Inl (TypeError (js ''Failed to fetch''))"

text \<open>
  An error response whose body is the given text and is not JSON; \<open>response.json()\<close>
  would reject on it.
\<close>

definition plain_text_response :: "nat \<Rightarrow> jsstring \<Rightarrow> TodoItem response" where
  "plain_text_response code t =
     \<lparr>status = code, read_text = Text t None, read_json = Inl (SyntaxError (js ''Unexpected token''))\<rparr>"

text \<open>An error response whose body cannot be read.\<close>

definition unreadable_response :: "nat \<Rightarrow> TodoItem response" where
  "unreadable_response code =
     \<lparr>status = code, read_text = Unreadable, read_json = Inl (TypeError (js ''Failed to fetch''))\<rparr>"

text \<open>The state of the component when it mounts (the arguments of \<open>useState\<close>).\<close>

definition initial_state :: app_state where
  "initial_state =
     \<lparr>todos = [], titleInput = [], descriptionInput = [], dueDateInput = [],
      editingTodoId = None,
      editingData =
        \<lparr>editing_title = [], editing_description = [], editing_dueDate = [],
         editing_isCompleted = False\<rparr>,
      isLoading = False, errorMessage = [], filter' = js ''all''\<rparr>"

text \<open>
  A todo as the server returns it, and a server that answers a create with it: status
  201 and the body \<open>{"_id":"1","title":"Buy milk","isCompleted":false}\<close>.
\<close>

definition buy_milk :: TodoItem where
  "buy_milk =
     \<lparr>todo_id = js ''1'', todo_title = js ''Buy milk'', todo_description = None,
      todo_dueDate = None, todo_isCompleted = False, todo_createdAt = None,
      todo_updatedAt = None\<rparr>"

definition server_creates_buy_milk :: "request \<Rightarrow> exn + TodoItem response" where
  "server_creates_buy_milk request =
     Inr \<lparr>status = 201,
          read_text =
            Text [0x7B, 0x22, 0x5F, 0x69, 0x64, 0x22, 0x3A, 0x22, 0x31, 0x22, 0x2C, 0x22, 0x74,
                  0x69, 0x74, 0x6C, 0x65, 0x22, 0x3A, 0x22, 0x42, 0x75, 0x79, 0x20, 0x6D, 0x69,
                  0x6C, 0x6B, 0x22, 0x2C, 0x22, 0x69, 0x73, 0x43, 0x6F, 0x6D, 0x70, 0x6C, 0x65,
                  0x74, 0x65, 0x64, 0x22, 0x3A, 0x66, 0x61, 0x6C, 0x73, 0x65, 0x7D]
              (Some (JObj [(js ''_id'', JStr (js ''1'')), (js ''title'', JStr (js ''Buy milk'')),
                           (js ''isCompleted'', JBool False)])),
          read_json = Inr buy_milk\<rparr>"

text \<open>A state with a title typed into the form and a draft being edited.\<close>

definition typing_state :: app_state where
  "typing_state =
     initial_state
       \<lparr>titleInput := js ''Buy milk'',
        editingTodoId := Some (js ''1''),
        editingData :=
          \<lparr>editing_title = js ''Buy oat milk'', editing_description = [],
           editing_dueDate = [], editing_isCompleted = True\<rparr>\<rparr>"

section \<open>Properties of the error classification\<close>

lemma handleResponseError_base:
  "handleResponseError h r =
     (case base_message h r of
        Inl e \<Rightarrow> e
      | Inr b \<Rightarrow> if status r = 500 then Error (b @ msg_guidance) else Error b)"
  by (auto simp: handleResponseError_def base_message_def or_else_def Let_def
      split: body_text.splits option.splits sum.splits)

text \<open>
  C2, as amended: the guidance text is appended for status 500 and for no other status.
  Whenever the message computed from the body and the status (lines 11 to 46) is the
  string \<open>b\<close>, the exception thrown is \<open>Error\<close> with \<open>b\<close> followed by the guidance
  when the status is 500, and with \<open>b\<close> alone otherwise, the other 5xx included.
\<close>

theorem handleResponseError_guidance_only_500:
  "base_message h r = Inr b \<Longrightarrow>
   handleResponseError h r = Error (if status r = 500 then b @ msg_guidance else b)"
  by (simp add: handleResponseError_base)

theorem handleResponseError_guidance_only_500_witness:
  "base_message chrome (plain_text_response 500 (js ''Internal Server Error''))
     = Inr (js ''Internal Server Error'') \<and>
   handleResponseError chrome (plain_text_response 500 (js ''Internal Server Error''))
     = Error (js ''Internal Server Error'' @ msg_guidance)"
proof -
  have b: "base_message chrome (plain_text_response 500 (js ''Internal Server Error''))
      = Inr (js ''Internal Server Error'')"
    by (simp add: base_message_def plain_text_response_def js_def)
  from handleResponseError_guidance_only_500 [OF b] b show ?thesis
    by (simp add: plain_text_response_def)
qed

text \<open>
  C2 as stated fails: a 503 response with the body \<open>Service Unavailable\<close> has that
  text as its base message, and the message thrown is the text alone.
\<close>

theorem handleResponseError_503_counterexample:
  "base_message chrome (plain_text_response 503 (js ''Service Unavailable''))
     = Inr (js ''Service Unavailable'') \<and>
   handleResponseError chrome (plain_text_response 503 (js ''Service Unavailable''))
     = Error (js ''Service Unavailable'') \<and>
   handleResponseError chrome (plain_text_response 503 (js ''Service Unavailable''))
     \<noteq> Error (js ''Service Unavailable'' @ msg_guidance)"
  by (simp add: handleResponseError_def base_message_def plain_text_response_def js_def
      msg_guidance_def)

text \<open>
  C3, as amended: for a response with status 404 whose body cannot be read, the
  exception thrown carries the fixed message \<open>msg_404\<close>.
\<close>

theorem handleResponseError_404_unreadable:
  "status r = 404 \<Longrightarrow> read_text r = Unreadable \<Longrightarrow> handleResponseError h r = Error msg_404"
  by (simp add: handleResponseError_def)

theorem handleResponseError_404_unreadable_witness:
  "status (unreadable_response 404) = 404 \<and>
   read_text (unreadable_response 404) = Unreadable \<and>
   handleResponseError chrome (unreadable_response 404) = Error msg_404"
proof -
  have s: "status (unreadable_response 404) = 404"
    and t: "read_text (unreadable_response 404) = Unreadable"
    by (simp_all add: unreadable_response_def)
  from handleResponseError_404_unreadable [OF s t] s t show ?thesis
    by simp
qed

text \<open>
  C3 as stated fails: a 404 response with the readable body \<open>Not Found\<close> yields that
  text, not the fixed message.
\<close>

theorem handleResponseError_404_counterexample:
  "handleResponseError chrome (plain_text_response 404 (js ''Not Found''))
     = Error (js ''Not Found'') \<and>
   handleResponseError chrome (plain_text_response 404 (js ''Not Found'')) \<noteq> Error msg_404"
  by (simp add: handleResponseError_def plain_text_response_def js_def msg_404_def)

text \<open>
  C9, as amended: for a response whose body is a non-empty text that is not JSON, the
  message is the first 200 code units of the text, followed by the guidance text when
  the status is 500.
\<close>

theorem handleResponseError_plain_text:
  "read_text r = Text t None \<Longrightarrow> t \<noteq> [] \<Longrightarrow>
   handleResponseError h r =
     Error (if status r = 500 then take 200 t @ msg_guidance else take 200 t)"
  by (simp add: handleResponseError_def)

theorem handleResponseError_plain_text_witness:
  "read_text (plain_text_response 502 (replicate 300 0x78)) = Text (replicate 300 0x78) None \<and>
   replicate 300 (0x78 :: 16 word) \<noteq> [] \<and>
   handleResponseError chrome (plain_text_response 502 (replicate 300 0x78))
     = Error (replicate 200 0x78)"
proof -
  have t: "read_text (plain_text_response 502 (replicate 300 0x78)) = Text (replicate 300 0x78) None"
    by (simp add: plain_text_response_def)
  have n: "replicate 300 (0x78 :: 16 word) \<noteq> []"
    by simp
  from handleResponseError_plain_text [OF t n] t n show ?thesis
    by (simp add: plain_text_response_def)
qed

text \<open>
  C9 as stated fails for status 500: the message is longer than the truncated body.
\<close>

theorem handleResponseError_plain_text_500_counterexample:
  "handleResponseError chrome (plain_text_response 500 (js ''Internal Server Error''))
     \<noteq> Error (take 200 (js ''Internal Server Error''))"
  by (simp add: handleResponseError_def plain_text_response_def js_def msg_guidance_def)

section \<open>Properties of the API client\<close>

lemma serialize_eq_None [simp]: "serialize v = None \<longleftrightarrow> v = Undefined"
  by (cases v rule: serialize.cases) simp_all

lemma trim_if_string_eq_Undefined [simp]: "trim_if_string v = Undefined \<longleftrightarrow> v = Undefined"
  by (cases v rule: trim_if_string.cases) simp_all

lemma field_names_stringify:
  "field_names (Some (JSON_stringify ps)) = map fst (filter (\<lambda>(k, v). v \<noteq> Undefined) ps)"
  unfolding field_names_def JSON_stringify_def
  by (induction ps) (auto split: option.splits)

lemma field_stringify:
  "field (Some (JSON_stringify ps)) k =
     (case map_of (filter (\<lambda>(k, v). v \<noteq> Undefined) ps) k of
        None \<Rightarrow> None
      | Some v \<Rightarrow> serialize v)"
  unfolding field_def JSON_stringify_def
  by (induction ps) (auto split: option.splits)

text \<open>
  C1, as amended: a create call that passes only a title makes one POST request whose
  body has exactly two fields, \<open>title\<close> with the trimmed title and \<open>isCompleted\<close>
  with \<open>false\<close>; it has no \<open>description\<close> and no \<open>dueDate\<close>.
\<close>

theorem createTodo_title_only:
  "fst (createTodo h fetch t None Undefined Undefined) =
     [\<lparr>url = API_BASE_URL h, http_method = ''POST'',
       headers = [(''Content-Type'', ''application/json'')],
       body = Some (JObj [(js ''title'', JStr (trim t)), (js ''isCompleted'', JBool False)])\<rparr>]"
  by (simp add: createTodo_def Let_def JSON_stringify_def js_def)

theorem createTodo_title_only_witness:
  "map body
     (fst (createTodo chrome (offline :: request \<Rightarrow> exn + TodoItem response)
        (js '' Buy milk '') None Undefined Undefined))
   = [Some (JObj [(js ''title'', JStr (js ''Buy milk'')), (js ''isCompleted'', JBool False)])]"
  using createTodo_title_only [of chrome "offline :: request \<Rightarrow> exn + TodoItem response"
      "js '' Buy milk ''"]
  by (simp add: trim_def is_ws_def js_def)

text \<open>
  C1 as stated fails: the body of a create call with only the title \<open>Buy milk\<close> has
  the fields \<open>title\<close> and \<open>isCompleted\<close>, not \<open>title\<close> alone.
\<close>

theorem createTodo_title_only_counterexample:
  "map (\<lambda>request. field_names (body request))
     (fst (createTodo chrome (offline :: request \<Rightarrow> exn + TodoItem response)
        (js ''Buy milk'') None Undefined Undefined))
   = [[js ''title'', js ''isCompleted'']] \<and>
   map (\<lambda>request. field_names (body request))
     (fst (createTodo chrome (offline :: request \<Rightarrow> exn + TodoItem response)
        (js ''Buy milk'') None Undefined Undefined))
   \<noteq> [[js ''title'']]"
  by (simp add: createTodo_def Let_def JSON_stringify_def js_def field_names_def)

text \<open>
  C5: an update call with a valid identifier, whose \<open>dueDate\<close> is not an invalid Date
  (on which \<open>toISOString\<close> throws before any request), makes one request; its body
  has the field \<open>title\<close>, \<open>description\<close>, \<open>dueDate\<close>, \<open>isCompleted\<close> exactly
  when that property of \<open>updateData\<close> is not \<open>undefined\<close>, and no other field; and
  \<open>isCompleted\<close>, when passed, is in the body as the boolean \<open>Boolean(isCompleted)\<close>.
\<close>

theorem updateTodo_sends_passed_fields:
  assumes "id' \<noteq> []" and "id' \<noteq> js ''undefined''" and "id' \<noteq> js ''null''"
    and "dueDate u \<noteq> Date InvalidDate"
  shows "\<exists>request. fst (updateTodo h fetch id' u) = [request] \<and>
     field_names (body request) =
       (if title u \<noteq> Undefined then [js ''title''] else []) @
       (if description u \<noteq> Undefined then [js ''description''] else []) @
       (if dueDate u \<noteq> Undefined then [js ''dueDate''] else []) @
       (if isCompleted u \<noteq> Undefined then [js ''isCompleted''] else []) \<and>
     field (body request) (js ''isCompleted'') =
       (if isCompleted u \<noteq> Undefined then Some (JBool (truthy_val (isCompleted u))) else None)"
proof (cases "dueDate u")
  case Undefined
  with assms show ?thesis
    by (simp add: updateTodo_def Let_def field_names_stringify field_stringify js_def)
next
  case (Date d)
  with assms obtain stamp where "d = ValidDate stamp"
    by (cases d) auto
  with Date assms show ?thesis
    by (simp add: updateTodo_def Let_def toISOString_def field_names_stringify field_stringify
        js_def)
next
  case (Json v)
  with assms show ?thesis
    by (simp add: updateTodo_def Let_def field_names_stringify field_stringify js_def)
qed

theorem updateTodo_sends_passed_fields_witness:
  "js ''42'' \<noteq> [] \<and> js ''42'' \<noteq> js ''undefined'' \<and> js ''42'' \<noteq> js ''null'' \<and>
   dueDate \<lparr>title = Json (JStr (js '' Buy milk '')), description = Undefined,
            dueDate = Undefined, isCompleted = Json (JNum (js ''1''))\<rparr> \<noteq> Date InvalidDate \<and>
   (\<exists>request.
      fst (updateTodo chrome (offline :: request \<Rightarrow> exn + TodoItem response) (js ''42'')
             \<lparr>title = Json (JStr (js '' Buy milk '')), description = Undefined,
              dueDate = Undefined, isCompleted = Json (JNum (js ''1''))\<rparr>) = [request] \<and>
      field_names (body request) = [js ''title'', js ''isCompleted''] \<and>
      field (body request) (js ''isCompleted'') = Some (JBool True))"
proof -
  have a: "js ''42'' \<noteq> []" and b: "js ''42'' \<noteq> js ''undefined''"
    and c: "js ''42'' \<noteq> js ''null''"
    by (simp_all add: js_def)
  have d: "dueDate \<lparr>title = Json (JStr (js '' Buy milk '')), description = Undefined,
      dueDate = Undefined, isCompleted = Json (JNum (js ''1''))\<rparr> \<noteq> Date InvalidDate"
    by simp
  from updateTodo_sends_passed_fields [OF a b c d, of chrome
      "offline :: request \<Rightarrow> exn + TodoItem response"]
  have "\<exists>request.
      fst (updateTodo chrome (offline :: request \<Rightarrow> exn + TodoItem response) (js ''42'')
             \<lparr>title = Json (JStr (js '' Buy milk '')), description = Undefined,
              dueDate = Undefined, isCompleted = Json (JNum (js ''1''))\<rparr>) = [request] \<and>
      field_names (body request) = [js ''title'', js ''isCompleted''] \<and>
      field (body request) (js ''isCompleted'') = Some (JBool True)"
    by (simp add: js_def)
  with a b c d show ?thesis
    by blast
qed

text \<open>
  C6: an update or a delete whose identifier is the empty string, \<open>undefined\<close> or
  \<open>null\<close> throws the validation error and calls \<open>fetch\<close> not once.
\<close>

theorem invalid_id_rejected_without_request:
  "id' = [] \<or> id' = js ''undefined'' \<or> id' = js ''null'' \<Longrightarrow>
   updateTodo h fetch id' u = ([], Inl (Error msg_invalid_id)) \<and>
   deleteTodo h fetch' id' = ([], Inl (Error msg_invalid_id))"
  by (auto simp: updateTodo_def deleteTodo_def catch_network_def Let_def)

theorem invalid_id_rejected_without_request_witness:
  "(js ''undefined'' = [] \<or> js ''undefined'' = js ''undefined'' \<or> js ''undefined'' = js ''null'') \<and>
   updateTodo chrome (offline :: request \<Rightarrow> exn + TodoItem response) (js ''undefined'')
     \<lparr>title = Undefined, description = Undefined, dueDate = Undefined,
      isCompleted = Json (JBool True)\<rparr>
     = ([], Inl (Error msg_invalid_id)) \<and>
   deleteTodo chrome (offline :: request \<Rightarrow> exn + unit response) (js ''undefined'')
     = ([], Inl (Error msg_invalid_id)) \<and>
   deleteTodo chrome (offline :: request \<Rightarrow> exn + unit response) [] = ([], Inl (Error msg_invalid_id)) \<and>
   deleteTodo chrome (offline :: request \<Rightarrow> exn + unit response) (js ''null'')
     = ([], Inl (Error msg_invalid_id))"
  using invalid_id_rejected_without_request [of "js ''undefined''" chrome
      "offline :: request \<Rightarrow> exn + TodoItem response" _
      "offline :: request \<Rightarrow> exn + unit response"]
    invalid_id_rejected_without_request [of "[]" chrome
      "offline :: request \<Rightarrow> exn + TodoItem response" _
      "offline :: request \<Rightarrow> exn + unit response"]
    invalid_id_rejected_without_request [of "js ''null''" chrome
      "offline :: request \<Rightarrow> exn + TodoItem response" _
      "offline :: request \<Rightarrow> exn + unit response"]
  by simp

section \<open>Properties of the view\<close>

lemma trim_Nil [simp]: "trim [] = []"
  by (simp add: trim_def)

lemma trim_typing_state:
  "trim (titleInput typing_state) = js ''Buy milk''"
  "trim (editing_title (editingData typing_state)) = js ''Buy oat milk''"
  by (simp_all add: typing_state_def initial_state_def trim_def is_ws_def js_def)

text \<open>
  C4: a load makes one GET request; its URL is the collection URL followed by
  \<open>?isCompleted=true\<close> when the filter is \<open>completed\<close>, by \<open>?isCompleted=false\<close>
  when it is \<open>pending\<close>, and by nothing otherwise (the filter \<open>all\<close>).
\<close>

theorem loadTodos_query:
  "snd (loadTodos h fetch s) =
     [\<lparr>url = API_BASE_URL h @
         (if filter' s = js ''completed'' then js ''?isCompleted=true''
          else if filter' s = js ''pending'' then js ''?isCompleted=false''
          else []),
       http_method = ''GET'', headers = [], body = None\<rparr>]"
  by (simp add: loadTodos_def fetchTodos_def Let_def js_def split: prod.splits)

theorem loadTodos_query_witness:
  "map url (snd (loadTodos chrome offline (initial_state\<lparr>filter' := js ''completed''\<rparr>)))
     = [js ''http://localhost:5000/todos?isCompleted=true''] \<and>
   map url (snd (loadTodos chrome offline (initial_state\<lparr>filter' := js ''pending''\<rparr>)))
     = [js ''http://localhost:5000/todos?isCompleted=false''] \<and>
   map url (snd (loadTodos chrome offline initial_state))
     = [js ''http://localhost:5000/todos'']"
  using loadTodos_query [of chrome offline "initial_state\<lparr>filter' := js ''completed''\<rparr>"]
    loadTodos_query [of chrome offline "initial_state\<lparr>filter' := js ''pending''\<rparr>"]
    loadTodos_query [of chrome offline initial_state]
  by (simp add: API_BASE_URL_def chrome_def initial_state_def js_def)

text \<open>
  C7: a create submission, and a save of an edit, whose title is empty after trimming
  sets the validation message and does nothing else: \<open>fetch\<close> is not called, and the
  state, the todo list included, is otherwise as it was.
\<close>

theorem blank_title_rejected_in_view:
  "(trim (titleInput s) = [] \<longrightarrow>
      handleAddTodo h Date_new fetch s = (s\<lparr>errorMessage := msg_title_required\<rparr>, [])) \<and>
   (trim (editing_title (editingData s)) = [] \<longrightarrow>
      handleSaveEdit h Date_new fetch todoId s = (s\<lparr>errorMessage := msg_title_required\<rparr>, []))"
  by (simp add: handleAddTodo_def handleSaveEdit_def)

theorem blank_title_rejected_in_view_witness:
  "\<forall>Date_new.
     trim (titleInput (initial_state\<lparr>titleInput := js ''   ''\<rparr>)) = [] \<and>
     trim (editing_title (editingData (initial_state\<lparr>titleInput := js ''   ''\<rparr>))) = [] \<and>
     handleAddTodo chrome Date_new offline (initial_state\<lparr>titleInput := js ''   ''\<rparr>)
       = (initial_state\<lparr>titleInput := js ''   '', errorMessage := msg_title_required\<rparr>, []) \<and>
     handleSaveEdit chrome Date_new offline (js ''42'') (initial_state\<lparr>titleInput := js ''   ''\<rparr>)
       = (initial_state\<lparr>titleInput := js ''   '', errorMessage := msg_title_required\<rparr>, [])"
proof
  fix Date_new
  have a: "trim (titleInput (initial_state\<lparr>titleInput := js ''   ''\<rparr>)) = []"
    by (simp add: trim_def is_ws_def js_def)
  have b: "trim (editing_title (editingData (initial_state\<lparr>titleInput := js ''   ''\<rparr>))) = []"
    by (simp add: trim_def initial_state_def)
  from blank_title_rejected_in_view [of "initial_state\<lparr>titleInput := js ''   ''\<rparr>" chrome
      Date_new offline "js ''42''"] a b
  show "trim (titleInput (initial_state\<lparr>titleInput := js ''   ''\<rparr>)) = [] \<and>
     trim (editing_title (editingData (initial_state\<lparr>titleInput := js ''   ''\<rparr>))) = [] \<and>
     handleAddTodo chrome Date_new offline (initial_state\<lparr>titleInput := js ''   ''\<rparr>)
       = (initial_state\<lparr>titleInput := js ''   '', errorMessage := msg_title_required\<rparr>, []) \<and>
     handleSaveEdit chrome Date_new offline (js ''42'') (initial_state\<lparr>titleInput := js ''   ''\<rparr>)
       = (initial_state\<lparr>titleInput := js ''   '', errorMessage := msg_title_required\<rparr>, [])"
    by simp
qed

text \<open>
  C8: every action that passes its guard (a non-blank title for create and save, the
  user's confirmation for delete; load and toggle have none) ends with the loading flag
  false, whatever \<open>fetch\<close> does: rejection, error response or success.
\<close>

theorem loading_flag_cleared:
  "isLoading (fst (loadTodos h fetch_list s)) = False \<and>
   (trim (titleInput s) \<noteq> [] \<longrightarrow>
      isLoading (fst (handleAddTodo h Date_new fetch_item s)) = False) \<and>
   (trim (editing_title (editingData s)) \<noteq> [] \<longrightarrow>
      isLoading (fst (handleSaveEdit h Date_new fetch_item todoId s)) = False) \<and>
   isLoading (fst (handleToggleComplete h fetch_item todo s)) = False \<and>
   (confirmed \<longrightarrow> isLoading (fst (handleDeleteTodo h confirmed fetch_none todoId s)) = False)"
  by (simp add: loadTodos_def handleAddTodo_def handleSaveEdit_def handleToggleComplete_def
      handleDeleteTodo_def Let_def split: prod.splits sum.splits)

theorem loading_flag_cleared_witness:
  "\<forall>Date_new.
     trim (titleInput typing_state) \<noteq> [] \<and>
     trim (editing_title (editingData typing_state)) \<noteq> [] \<and>
     isLoading (fst (loadTodos chrome offline typing_state)) = False \<and>
     isLoading (fst (handleAddTodo chrome Date_new offline typing_state)) = False \<and>
     isLoading (fst (handleAddTodo chrome Date_new server_creates_buy_milk typing_state)) = False \<and>
     isLoading (fst (handleSaveEdit chrome Date_new offline (js ''1'') typing_state)) = False \<and>
     isLoading (fst (handleToggleComplete chrome offline buy_milk typing_state)) = False \<and>
     isLoading
       (fst (handleDeleteTodo chrome True (offline :: request \<Rightarrow> exn + unit response) (js ''1'')
          typing_state)) = False"
proof
  fix Date_new
  have a: "trim (titleInput typing_state) \<noteq> []"
    and b: "trim (editing_title (editingData typing_state)) \<noteq> []"
    by (simp_all add: trim_typing_state js_def)
  from a b
    loading_flag_cleared [where h = chrome and s = typing_state and fetch_list = offline
      and fetch_item = offline and fetch_none = "offline :: request \<Rightarrow> exn + unit response"
      and Date_new = Date_new and todoId = "js ''1''" and todo = buy_milk and confirmed = True]
    loading_flag_cleared [where h = chrome and s = typing_state and fetch_list = offline
      and fetch_item = server_creates_buy_milk
      and fetch_none = "offline :: request \<Rightarrow> exn + unit response"
      and Date_new = Date_new and todoId = "js ''1''" and todo = buy_milk and confirmed = True]
  show "trim (titleInput typing_state) \<noteq> [] \<and>
     trim (editing_title (editingData typing_state)) \<noteq> [] \<and>
     isLoading (fst (loadTodos chrome offline typing_state)) = False \<and>
     isLoading (fst (handleAddTodo chrome Date_new offline typing_state)) = False \<and>
     isLoading (fst (handleAddTodo chrome Date_new server_creates_buy_milk typing_state)) = False \<and>
     isLoading (fst (handleSaveEdit chrome Date_new offline (js ''1'') typing_state)) = False \<and>
     isLoading (fst (handleToggleComplete chrome offline buy_milk typing_state)) = False \<and>
     isLoading
       (fst (handleDeleteTodo chrome True (offline :: request \<Rightarrow> exn + unit response) (js ''1'')
          typing_state)) = False"
    by simp
qed

text \<open>
  C10: a save of an edit whose draft due date is empty makes at most one request, and no
  request it makes has a \<open>dueDate\<close> field: there is none when the title is blank or the
  identifier invalid, and otherwise the body has exactly \<open>title\<close>, \<open>description\<close>
  and \<open>isCompleted\<close>. So such a save cannot clear the due date the task has.
\<close>

theorem handleSaveEdit_without_dueDate:
  assumes "editing_dueDate (editingData s) = []"
  shows "list_all (\<lambda>request. js ''dueDate'' \<notin> set (field_names (body request)))
       (snd (handleSaveEdit h Date_new fetch todoId s)) \<and>
     map body (snd (handleSaveEdit h Date_new fetch todoId s)) =
       (if trim (editing_title (editingData s)) = [] \<or> todoId = [] \<or>
           todoId = js ''undefined'' \<or> todoId = js ''null''
        then []
        else [Some (JObj
                [(js ''title'', JStr (trim (editing_title (editingData s)))),
                 (js ''description'', JStr (trim (editing_description (editingData s)))),
                 (js ''isCompleted'', JBool (editing_isCompleted (editingData s)))])])"
  using assms
  by (simp add: handleSaveEdit_def updateTodo_def Let_def JSON_stringify_def field_names_def
      js_def split: prod.splits)

theorem handleSaveEdit_without_dueDate_witness:
  "\<forall>Date_new.
     editing_dueDate (editingData typing_state) = [] \<and>
     map body (snd (handleSaveEdit chrome Date_new offline (js ''1'') typing_state)) =
       [Some (JObj [(js ''title'', JStr (js ''Buy oat milk'')), (js ''description'', JStr []),
                    (js ''isCompleted'', JBool True)])]"
proof
  fix Date_new
  have a: "editing_dueDate (editingData typing_state) = []"
    by (simp add: typing_state_def)
  have b: "editing_description (editingData typing_state) = []"
    "editing_isCompleted (editingData typing_state) = True"
    by (simp_all add: typing_state_def)
  from handleSaveEdit_without_dueDate [OF a, of chrome Date_new offline "js ''1''"] a
  show "editing_dueDate (editingData typing_state) = [] \<and>
     map body (snd (handleSaveEdit chrome Date_new offline (js ''1'') typing_state)) =
       [Some (JObj [(js ''title'', JStr (js ''Buy oat milk'')), (js ''description'', JStr []),
                    (js ''isCompleted'', JBool True)])]"
    by (simp add: trim_typing_state b js_def)
qed

subsection \<open>The two paths of an action, end to end\<close>

text \<open>
  When the server answers a create with a success status and the new todo, the todo is
  put at the head of the list and the form is cleared.
\<close>

lemma handleAddTodo_success:
  assumes "trim (titleInput s) \<noteq> []" and "dueDateInput s = []"
    and "\<And>request. fetch request = Inr response" and "ok response"
    and "read_json response = Inr newTodo"
  shows "fst (handleAddTodo h Date_new fetch s) =
     s\<lparr>todos := newTodo # todos s, titleInput := [], descriptionInput := [],
       dueDateInput := [], isLoading := False, errorMessage := []\<rparr>"
  using assms
  by (simp add: handleAddTodo_def createTodo_def Let_def split: prod.splits)

text \<open>
  When the server answers a load with an error status, the message of the exception that
  handleResponseError throws is the one the view shows; the list is as it was.
\<close>

lemma loadTodos_shows_error:
  assumes "\<And>request. fetch request = Inr response" and "\<not> ok response"
    and "handleResponseError h response = Error m"
  shows "fst (loadTodos h fetch s) = s\<lparr>isLoading := False, errorMessage := m\<rparr>"
  using assms
  by (simp add: loadTodos_def fetchTodos_def fetchTodos_catch_def message_or_def Let_def
      split: prod.splits)

end
